theory Spec2Isabelle
  imports Main "HOL-Library.Sublist"
begin

text \<open>
  The WhatsApp lead-qualification bot of \<open>src/index.js\<close>: the phone normalizer, the
  lead scorer, the two text classifiers and the conversation state machine
  \<open>getNextStep\<close>. A nullable text is a \<open>string option\<close>, and a condition on it reads
  \<open>null\<close> and the empty text as false.
\<close>

section \<open>Texts and the string built-ins the program calls\<close>

text \<open>
  A text is a \<^typ>\<open>string\<close>: one character for each code unit of the JavaScript string,
  for the code units below 256 (ASCII and Latin-1). On that range the built-ins
  \<open>toLowerCase\<close>, \<open>trim\<close>, \<open>includes\<close> and the pattern \<open>\D\<close> are as defined here.
  Every lexicon of the program is lower-case ASCII.
\<close>

definition codeUnit :: "char \<Rightarrow> nat" where
  "codeUnit c = of_char c"

definition isDigit :: "char \<Rightarrow> bool" where
  \<comment> \<open>the class \<open>\d\<close> of a pattern without the unicode flag: \<open>0\<close> (48) to \<open>9\<close> (57)\<close>
  "isDigit c = (48 \<le> codeUnit c \<and> codeUnit c \<le> 57)"

fun replaceNonDigits :: "string \<Rightarrow> string" where
  \<comment> \<open>\<open>s.replace(/\D/g, '')\<close>: every character that is no digit is replaced by nothing\<close>
  "replaceNonDigits [] = []"
| "replaceNonDigits (c # cs) = (if isDigit c then [c] else []) @ replaceNonDigits cs"

definition isWhiteSpace :: "char \<Rightarrow> bool" where
  \<comment> \<open>what \<open>trim\<close> strips: TAB, LF, VT, FF, CR, space and the no-break space\<close>
  "isWhiteSpace c = (c \<in> set [CHR 0x09, CHR 0x0A, CHR 0x0B, CHR 0x0C, CHR 0x0D, CHR 0x20, CHR 0xA0])"

definition trimStart :: "string \<Rightarrow> string" where
  "trimStart s = dropWhile isWhiteSpace s"

definition trimEnd :: "string \<Rightarrow> string" where
  "trimEnd s = rev (dropWhile isWhiteSpace (rev s))"

definition trim :: "string \<Rightarrow> string" where
  "trim s = trimEnd (trimStart s)"

definition lowerChar :: "char \<Rightarrow> char" where
  \<comment> \<open>\<open>A\<close> to \<open>Z\<close> (65 to 90), and the Latin-1 capitals 192 to 222 without the
      multiplication sign 215, move up by 32\<close>
  "lowerChar c =
     (let n = codeUnit c
      in if (65 \<le> n \<and> n \<le> 90) \<or> (192 \<le> n \<and> n \<le> 222 \<and> n \<noteq> 215)
         then char_of (n + 32) else c)"

definition toLowerCase :: "string \<Rightarrow> string" where
  "toLowerCase s = map lowerChar s"

fun startsWith :: "string \<Rightarrow> string \<Rightarrow> bool" where
  "startsWith s [] = True"
| "startsWith [] (w # ws) = False"
| "startsWith (c # cs) (w # ws) = (c = w \<and> startsWith cs ws)"

fun includes_str :: "string \<Rightarrow> string \<Rightarrow> bool" where
  \<comment> \<open>\<open>s.includes(w)\<close>: \<open>w\<close> starts at some position of \<open>s\<close>\<close>
  "includes_str [] w = startsWith [] w"
| "includes_str (c # cs) w = (startsWith (c # cs) w \<or> includes_str cs w)"

section \<open>Phone normalizer\<close>

definition normalizePhone :: "string option \<Rightarrow> string" where
  "normalizePhone phone =
     (case phone of
        None \<Rightarrow> []
      | Some p \<Rightarrow>
          if p = [] then []
          else let digits = replaceNonDigits p
               in if includes_str p ''whatsapp:+'' then digits else digits)"

section \<open>The lead record and the qualification script\<close>

text \<open>
  A lead is the row of the \<open>leads\<close> table as the program reads and writes it. The text
  columns and the question index are nullable (\<open>None\<close> is \<open>null\<close>); the three flags
  are only ever tested for truthiness, so \<open>null\<close> there reads as \<open>False\<close>. The columns
  the conversation never looks at (\<open>name\<close>, \<open>source\<close>, \<open>notes\<close> and the timestamps
  \<open>created_at\<close>, \<open>updated_at\<close>) are left out. A property the object lacks and a
  property that is \<open>null\<close> are the same \<open>None\<close>.
\<close>

datatype qfield = Location | Home_type | Bedrooms | Budget | Timeline | Preapproval | Motivation

record lead =
  phone :: "string option"
  current_question_index :: "nat option"
  qualification_complete :: bool
  asked_for_meeting :: bool
  meeting_scheduled :: bool
  wants_meeting :: "bool option"
  meeting_notes :: "string option"
  lead_score :: "string option"
  location :: "string option"
  home_type :: "string option"
  bedrooms :: "string option"
  budget :: "string option"
  timeline :: "string option"
  preapproval :: "string option"
  motivation :: "string option"

fun getField :: "lead \<Rightarrow> qfield \<Rightarrow> string option" where
  \<comment> \<open>\<open>lead[field]\<close>\<close>
  "getField l Location = location l"
| "getField l Home_type = home_type l"
| "getField l Bedrooms = bedrooms l"
| "getField l Budget = budget l"
| "getField l Timeline = timeline l"
| "getField l Preapproval = preapproval l"
| "getField l Motivation = motivation l"

fun setField :: "qfield \<Rightarrow> string option \<Rightarrow> lead \<Rightarrow> lead" where
  \<comment> \<open>\<open>lead[field] = v\<close>\<close>
  "setField Location v l = l\<lparr>location := v\<rparr>"
| "setField Home_type v l = l\<lparr>home_type := v\<rparr>"
| "setField Bedrooms v l = l\<lparr>bedrooms := v\<rparr>"
| "setField Budget v l = l\<lparr>budget := v\<rparr>"
| "setField Timeline v l = l\<lparr>timeline := v\<rparr>"
| "setField Preapproval v l = l\<lparr>preapproval := v\<rparr>"
| "setField Motivation v l = l\<lparr>motivation := v\<rparr>"

record question_entry =
  field :: qfield
  question :: string

definition QUALIFICATION_QUESTIONS :: "question_entry list" where
  "QUALIFICATION_QUESTIONS =
     [\<lparr>field = Location, question = ''What area or city are you looking in?''\<rparr>,
      \<lparr>field = Home_type,
       question = ''What type of home are you looking for? (house, condo, apartment, etc.)''\<rparr>,
      \<lparr>field = Bedrooms, question = ''How many bedrooms do you need?''\<rparr>,
      \<lparr>field = Budget, question = ''What's your budget or price range?''\<rparr>,
      \<lparr>field = Timeline, question = ''When are you looking to move?''\<rparr>,
      \<lparr>field = Preapproval,
       question = ''Are you pre-approved for a mortgage or planning to pay cash?''\<rparr>,
      \<lparr>field = Motivation,
       question = ''What's motivating your move? (new job, bigger space, investment, etc.)''\<rparr>]"

definition defaultLeadState :: "string \<Rightarrow> lead" where
  \<comment> \<open>the state \<open>getCurrentLeadState\<close> returns for a phone with no row\<close>
  "defaultLeadState normalizedPhone =
     \<lparr>phone = Some normalizedPhone,
      current_question_index = Some 0,
      qualification_complete = False,
      asked_for_meeting = False,
      meeting_scheduled = False,
      wants_meeting = None,
      meeting_notes = None,
      lead_score = None,
      location = None,
      home_type = None,
      bedrooms = None,
      budget = None,
      timeline = None,
      preapproval = None,
      motivation = None\<rparr>"

section \<open>Lead scorer\<close>

definition scoreFields :: "qfield list" where
  "scoreFields = [Location, Budget, Timeline, Home_type, Bedrooms, Preapproval, Motivation]"

definition isFilled :: "string option \<Rightarrow> bool" where
  \<comment> \<open>\<open>value && value !== 'unknown' && value.toString().trim() !== ''\<close>\<close>
  "isFilled v = (case v of None \<Rightarrow> False
                 | Some s \<Rightarrow> s \<noteq> [] \<and> s \<noteq> ''unknown'' \<and> trim s \<noteq> [])"

definition filledCount :: "lead \<Rightarrow> nat" where
  "filledCount l = length (filter (\<lambda>f. isFilled (getField l f)) scoreFields)"

definition isUrgent :: "lead \<Rightarrow> bool" where
  \<comment> \<open>\<open>(lead.timeline || '')\<close> is the timeline, and the empty text for \<open>null\<close>\<close>
  "isUrgent l =
     (let t = toLowerCase (case timeline l of None \<Rightarrow> [] | Some v \<Rightarrow> v)
      in includes_str t ''asap'' \<or>
         includes_str t ''soon'' \<or>
         includes_str t ''immediately'' \<or>
         includes_str t ''next month'' \<or>
         includes_str t ''30 day'' \<or>
         includes_str t ''2 week'' \<or>
         includes_str t ''urgent'')"

definition hasStrongBudget :: "lead \<Rightarrow> bool" where
  "hasStrongBudget l =
     (case budget l of None \<Rightarrow> False
      | Some b \<Rightarrow> b \<noteq> [] \<and> \<not> includes_str b ''unknown'' \<and> \<not> includes_str b ''not sure'')"

definition calculateLeadScore :: "lead \<Rightarrow> string" where
  "calculateLeadScore l =
     (if 5 \<le> filledCount l \<and> isUrgent l \<and> hasStrongBudget l then ''hot''
      else if 4 \<le> filledCount l then ''warm''
      else ''cold'')"

section \<open>Scheduling-intent classifier\<close>

definition positiveWords :: "string list" where
  "positiveWords =
     [''yes'', ''yeah'', ''yep'', ''sure'', ''ok'', ''okay'',
      ''sounds good'', ''perfect'', ''great'', ''awesome'',
      ''bet'', ''definitely'', ''absolutely'', ''lets do it'', ''let's do it'',
      ''schedule'', ''call me'', ''call'', ''meeting'', ''please'', ''ready'']"

definition isPositiveResponse :: "string option \<Rightarrow> bool" where
  "isPositiveResponse message =
     (case message of None \<Rightarrow> False
      | Some m \<Rightarrow>
          if m = [] then False
          else let text = trim (toLowerCase m)
               in list_ex (\<lambda>word. includes_str text word) positiveWords)"

section \<open>Answer classifier\<close>

datatype error = TypeError

definition updateLeadField :: "lead \<Rightarrow> nat \<Rightarrow> string option \<Rightarrow> error + lead" where
  \<comment> \<open>a \<open>null\<close> response has no \<open>trim\<close>: the call throws\<close>
  "updateLeadField l currentQuestionIndex userResponse =
     (if currentQuestionIndex \<ge> length QUALIFICATION_QUESTIONS then Inr l
      else let f = field (QUALIFICATION_QUESTIONS ! currentQuestionIndex)
           in case userResponse of None \<Rightarrow> Inl TypeError
              | Some r \<Rightarrow>
                  let response = trim r
                  in if includes_str (toLowerCase response) ''not sure'' \<or>
                        includes_str (toLowerCase response) ''don't know'' \<or>
                        includes_str (toLowerCase response) ''unknown'' \<or>
                        includes_str (toLowerCase response) ''idk'' \<or>
                        includes_str (toLowerCase response) ''not certain''
                     then Inr (setField f (Some ''unknown'') l)
                     else Inr (setField f (Some response) l))"

text \<open>
  The second source file holds an earlier copy of the classifier (its lines 172 to 189):
  it does not trim, and its lexicon lacks \<open>not certain\<close>.
\<close>

definition updateLeadField_earlier :: "lead \<Rightarrow> nat \<Rightarrow> string option \<Rightarrow> error + lead" where
  "updateLeadField_earlier l currentQuestionIndex userResponse =
     (if currentQuestionIndex \<ge> length QUALIFICATION_QUESTIONS then Inr l
      else let f = field (QUALIFICATION_QUESTIONS ! currentQuestionIndex)
           in case userResponse of None \<Rightarrow> Inl TypeError
              | Some r \<Rightarrow>
                  if includes_str (toLowerCase r) ''not sure'' \<or>
                     includes_str (toLowerCase r) ''don't know'' \<or>
                     includes_str (toLowerCase r) ''unknown'' \<or>
                     includes_str (toLowerCase r) ''idk''
                  then Inr (setField f (Some ''unknown'') l)
                  else Inr (setField f (Some r) l))"

section \<open>Writes to the lead store\<close>

text \<open>
  \<open>saveLeadToSupabase(phone, updates)\<close> posts one object to the store: the normalized
  phone, then the properties of \<open>updates\<close> (a property named again overrides the earlier
  one). The object is a list of column assignments; the timestamp \<open>updated_at\<close> the
  program adds to every post is left out. The store is an outside service with merge
  semantics on the lead's key: \<open>upsertLead\<close> writes the assigned columns into the row and
  leaves the others. \<open>persist\<close> merges the posts of one step, in order, into the snapshot
  the step was computed from. The posted phone is the key of the row; a lead read from the
  store, or built as the default state, carries the normalized phone already.
\<close>

datatype assignment =
    Phone "string option"
  | Current_question_index "nat option"
  | Qualification_complete bool
  | Asked_for_meeting bool
  | Meeting_scheduled bool
  | Wants_meeting "bool option"
  | Meeting_notes "string option"
  | Lead_score "string option"
  | Answer qfield "string option"

definition entries :: "lead \<Rightarrow> assignment list" where
  \<comment> \<open>the properties of a lead object, as \<open>{ ...lead }\<close> copies them\<close>
  "entries l =
     [Phone (phone l),
      Current_question_index (current_question_index l),
      Qualification_complete (qualification_complete l),
      Asked_for_meeting (asked_for_meeting l),
      Meeting_scheduled (meeting_scheduled l),
      Wants_meeting (wants_meeting l),
      Meeting_notes (meeting_notes l),
      Lead_score (lead_score l),
      Answer Location (location l),
      Answer Home_type (home_type l),
      Answer Bedrooms (bedrooms l),
      Answer Budget (budget l),
      Answer Timeline (timeline l),
      Answer Preapproval (preapproval l),
      Answer Motivation (motivation l)]"

definition saveLeadToSupabase :: "string option \<Rightarrow> assignment list \<Rightarrow> assignment list" where
  \<comment> \<open>the object \<open>data\<close> that is posted\<close>
  "saveLeadToSupabase ph updates = Phone (Some (normalizePhone ph)) # updates"

fun assign :: "assignment \<Rightarrow> lead \<Rightarrow> lead" where
  "assign (Phone v) l = l\<lparr>phone := v\<rparr>"
| "assign (Current_question_index v) l = l\<lparr>current_question_index := v\<rparr>"
| "assign (Qualification_complete v) l = l\<lparr>qualification_complete := v\<rparr>"
| "assign (Asked_for_meeting v) l = l\<lparr>asked_for_meeting := v\<rparr>"
| "assign (Meeting_scheduled v) l = l\<lparr>meeting_scheduled := v\<rparr>"
| "assign (Wants_meeting v) l = l\<lparr>wants_meeting := v\<rparr>"
| "assign (Meeting_notes v) l = l\<lparr>meeting_notes := v\<rparr>"
| "assign (Lead_score v) l = l\<lparr>lead_score := v\<rparr>"
| "assign (Answer f v) l = setField f v l"

definition upsertLead :: "assignment list \<Rightarrow> lead \<Rightarrow> lead" where
  "upsertLead data l = fold assign data l"

definition persist :: "assignment list list \<Rightarrow> lead \<Rightarrow> lead" where
  "persist posts l = fold upsertLead posts l"

section \<open>Conversation state machine\<close>

datatype step_type =
  Already_handled | Question | Scheduling | Meeting_confirmed | Meeting_declined | Fallback

record step =
  type :: step_type
  message :: string

text \<open>
  The emoji of the replies lie beyond the 8-bit range; they stand as the bytes of their
  UTF-8 encoding, as in the source file.
\<close>

definition scoreEmoji :: "string option \<Rightarrow> string" where
  "scoreEmoji score =
     (if score = Some ''hot'' then [CHR 0xF0, CHR 0x9F, CHR 0x94, CHR 0xA5]
      else if score = Some ''warm'' then [CHR 0xE2, CHR 0x98, CHR 0x80, CHR 0xEF, CHR 0xB8, CHR 0x8F]
      else [CHR 0xE2, CHR 0x9D, CHR 0x84, CHR 0xEF, CHR 0xB8, CHR 0x8F])"

definition interpolate :: "string option \<Rightarrow> string" where
  \<comment> \<open>a nullable text inside a template literal\<close>
  "interpolate v = (case v of None \<Rightarrow> ''null'' | Some s \<Rightarrow> s)"

definition schedulingOffer :: "string option \<Rightarrow> string" where
  \<comment> \<open>the template literal of the scheduling step\<close>
  "schedulingOffer score =
     scoreEmoji score
       @ '' Thanks for the information! Based on what you've shared, you're a ''
       @ interpolate score
       @ '' lead. Would you like to schedule a meeting with one of our agents?''"

definition currentIndex :: "lead \<Rightarrow> nat" where
  \<comment> \<open>\<open>lead.current_question_index || 0\<close>\<close>
  "currentIndex l = (case current_question_index l of None \<Rightarrow> 0 | Some i \<Rightarrow> i)"

definition getNextStep :: "lead \<Rightarrow> string option \<Rightarrow> error + (step \<times> assignment list list)" where
  \<comment> \<open>the result pairs the returned step with the posts made on the way, in order\<close>
  "getNextStep l userResponse =
     (if meeting_scheduled l then
        Inr (\<lparr>type = Already_handled,
              message = ''Thanks for your message! Our team will be in touch shortly to confirm the meeting details.''\<rparr>,
             [])
      else if currentIndex l < length QUALIFICATION_QUESTIONS then
        (case updateLeadField l (currentIndex l) userResponse of
           Inl e \<Rightarrow> Inl e
         | Inr updated \<Rightarrow>
             let moved = updated\<lparr>current_question_index := Some (currentIndex l + 1)\<rparr>;
                 updatedLead =
                   (if current_question_index moved = Some (length QUALIFICATION_QUESTIONS)
                    then (let complete = moved\<lparr>qualification_complete := True\<rparr>
                          in complete\<lparr>lead_score := Some (calculateLeadScore complete)\<rparr>)
                    else moved);
                 post1 = saveLeadToSupabase (phone l) (entries updatedLead)
             in if currentIndex l + 1 < length QUALIFICATION_QUESTIONS then
                  Inr (\<lparr>type = Question,
                        message = question (QUALIFICATION_QUESTIONS ! (currentIndex l + 1))\<rparr>,
                       [post1])
                else
                  let post2 = saveLeadToSupabase (phone l) [Asked_for_meeting True]
                  in Inr (\<lparr>type = Scheduling,
                           message = schedulingOffer (lead_score updatedLead)\<rparr>,
                          [post1, post2]))
      else if asked_for_meeting l \<and> \<not> meeting_scheduled l then
        (if isPositiveResponse userResponse then
           Inr (\<lparr>type = Meeting_confirmed,
                 message = [CHR 0xF0, CHR 0x9F, CHR 0x8E, CHR 0x89]
                   @ '' Great! An agent will reach out to you within the next hour to schedule the meeting. Thank you!''\<rparr>,
                [saveLeadToSupabase (phone l)
                   [Meeting_scheduled True, Wants_meeting (Some True), Meeting_notes userResponse]])
         else
           Inr (\<lparr>type = Meeting_declined,
                 message = ''Thank you for your interest! We will keep your information on file and reach out if we find properties that match your criteria.''\<rparr>,
                [saveLeadToSupabase (phone l)
                   [Meeting_scheduled True, Wants_meeting (Some False)]]))
      else
        Inr (\<lparr>type = Fallback,
              message = ''Thanks for your message! Our team will review your information and get back to you shortly.''\<rparr>,
             []))"

definition nextLead :: "lead \<Rightarrow> string option \<Rightarrow> error + lead" where
  \<comment> \<open>the snapshot the next message of the same lead is answered from\<close>
  "nextLead l userResponse =
     (case getNextStep l userResponse of
        Inl e \<Rightarrow> Inl e
      | Inr (s, posts) \<Rightarrow> Inr (persist posts l))"

fun conversation :: "lead \<Rightarrow> string list \<Rightarrow> error + lead" where
  \<comment> \<open>the inbound messages of one lead, answered one after the other\<close>
  "conversation l [] = Inr l"
| "conversation l (m # ms) =
     (case nextLead l (Some m) of Inl e \<Rightarrow> Inl e | Inr l' \<Rightarrow> conversation l' ms)"

section \<open>Example leads\<close>

definition scenarioA :: lead where
  \<comment> \<open>a new lead\<close>
  "scenarioA = defaultLeadState ''15551234567''"

definition scenarioB :: lead where
  \<comment> \<open>a lead at the last question\<close>
  "scenarioB = scenarioA\<lparr>current_question_index := Some 6\<rparr>"

definition scenarioC :: lead where
  \<comment> \<open>a lead that has been offered a meeting\<close>
  "scenarioC = scenarioA\<lparr>current_question_index := Some 7, qualification_complete := True,
                          asked_for_meeting := True\<rparr>"

definition scenarioBooked :: lead where
  \<comment> \<open>a lead whose meeting is booked\<close>
  "scenarioBooked = scenarioC\<lparr>meeting_scheduled := True, wants_meeting := Some True,
                               meeting_notes := Some ''yes''\<rparr>"

definition scenarioE :: "lead \<Rightarrow> lead" where
  \<comment> \<open>a lead with the seven answers of the scoring example\<close>
  "scenarioE l =
     l\<lparr>location := Some ''Dallas'', budget := Some ''unknown'', timeline := Some ''asap'',
       home_type := Some ''condo'', bedrooms := Some ''2'', preapproval := Some ''cash'',
       motivation := Some ''job''\<rparr>"

definition scenarioPatient :: lead where
  \<comment> \<open>all seven answers given, a budget named, no hurry\<close>
  "scenarioPatient = (scenarioE scenarioA)\<lparr>budget := Some ''300k'', timeline := Some ''next year''\<rparr>"

section \<open>Facts about the built-ins\<close>

lemma replaceNonDigits_filter: "replaceNonDigits s = filter isDigit s"
  by (induction s) simp_all

lemma startsWith_prefix: "startsWith s w \<longleftrightarrow> prefix w s"
  by (induction s w rule: startsWith.induct) auto

lemma includes_sublist: "includes_str s w \<longleftrightarrow> sublist w s"
proof (induction s)
  case Nil
  show ?case by (cases w) simp_all
next
  case (Cons c cs)
  show ?case
    by (simp only: includes_str.simps Cons.IH startsWith_prefix sublist_Cons_right)
qed

section \<open>Phone normalizer: idempotence\<close>

text \<open>
  C9. \<open>normalizePhone\<close> is idempotent; its output consists of digits only, is a
  subsequence of the input and keeps every digit of the input in order (it is the input
  with the non-digits struck out); for \<open>null\<close> and for the empty text it is the empty text.
\<close>

theorem normalizePhone_idempotent:
  "normalizePhone (Some (normalizePhone p)) = normalizePhone p
   \<and> list_all isDigit (normalizePhone (Some s))
   \<and> subseq (normalizePhone (Some s)) s
   \<and> normalizePhone (Some s) = filter isDigit s
   \<and> normalizePhone None = []
   \<and> normalizePhone (Some []) = []"
  by (cases p) (simp_all add: normalizePhone_def replaceNonDigits_filter list_all_iff)

section \<open>Facts about the store writes and the state machine\<close>

lemma length_QUALIFICATION_QUESTIONS: "length QUALIFICATION_QUESTIONS = 7"
  by (simp add: QUALIFICATION_QUESTIONS_def)

lemma setField_frame [simp]:
  "phone (setField f v l) = phone l"
  "current_question_index (setField f v l) = current_question_index l"
  "qualification_complete (setField f v l) = qualification_complete l"
  "asked_for_meeting (setField f v l) = asked_for_meeting l"
  "meeting_scheduled (setField f v l) = meeting_scheduled l"
  "wants_meeting (setField f v l) = wants_meeting l"
  "meeting_notes (setField f v l) = meeting_notes l"
  "lead_score (setField f v l) = lead_score l"
  by (cases f; simp)+

lemma upsertLead_entries: "upsertLead (saveLeadToSupabase p (entries u)) l = u"
  by (simp add: upsertLead_def saveLeadToSupabase_def entries_def)

lemma upsertLead_asked:
  "upsertLead (saveLeadToSupabase p [Asked_for_meeting True]) l =
     l\<lparr>phone := Some (normalizePhone p), asked_for_meeting := True\<rparr>"
  by (simp add: upsertLead_def saveLeadToSupabase_def)

lemma persist_Nil: "persist [] l = l"
  by (simp add: persist_def)

lemma persist_single: "persist [d] l = upsertLead d l"
  by (simp add: persist_def)

lemma persist_double: "persist [d, e] l = upsertLead e (upsertLead d l)"
  by (simp add: persist_def)

lemma updateLeadField_Some:
  "k < 7 \<Longrightarrow>
   \<exists>v. updateLeadField l k (Some r) = Inr (setField (field (QUALIFICATION_QUESTIONS ! k)) (Some v) l)"
  by (auto simp add: updateLeadField_def length_QUALIFICATION_QUESTIONS Let_def)

lemma getNextStep_terminal:
  "meeting_scheduled l \<Longrightarrow>
   getNextStep l m =
     Inr (\<lparr>type = Already_handled,
           message = ''Thanks for your message! Our team will be in touch shortly to confirm the meeting details.''\<rparr>,
          [])"
  by (simp add: getNextStep_def)

lemma getNextStep_question:
  assumes "\<not> meeting_scheduled l" and "currentIndex l = k" and "k + 1 < 7"
    and "updateLeadField l k r = Inr u"
  shows "getNextStep l r =
     Inr (\<lparr>type = Question, message = question (QUALIFICATION_QUESTIONS ! (k + 1))\<rparr>,
          [saveLeadToSupabase (phone l) (entries (u\<lparr>current_question_index := Some (k + 1)\<rparr>))])"
  using assms by (simp add: getNextStep_def length_QUALIFICATION_QUESTIONS Let_def)

lemma getNextStep_scheduling:
  assumes "\<not> meeting_scheduled l" and "currentIndex l = 6"
    and "updateLeadField l 6 r = Inr u"
    and "c = u\<lparr>current_question_index := Some 7, qualification_complete := True\<rparr>"
  shows "getNextStep l r =
     Inr (\<lparr>type = Scheduling, message = schedulingOffer (Some (calculateLeadScore c))\<rparr>,
          [saveLeadToSupabase (phone l) (entries (c\<lparr>lead_score := Some (calculateLeadScore c)\<rparr>)),
           saveLeadToSupabase (phone l) [Asked_for_meeting True]])"
  using assms by (simp add: getNextStep_def length_QUALIFICATION_QUESTIONS Let_def)

lemma getNextStep_scheduling_response:
  assumes "\<not> meeting_scheduled l" and "7 \<le> currentIndex l" and "asked_for_meeting l"
  shows "getNextStep l m =
     (if isPositiveResponse m then
        Inr (\<lparr>type = Meeting_confirmed,
              message = [CHR 0xF0, CHR 0x9F, CHR 0x8E, CHR 0x89]
                @ '' Great! An agent will reach out to you within the next hour to schedule the meeting. Thank you!''\<rparr>,
             [saveLeadToSupabase (phone l)
                [Meeting_scheduled True, Wants_meeting (Some True), Meeting_notes m]])
      else
        Inr (\<lparr>type = Meeting_declined,
              message = ''Thank you for your interest! We will keep your information on file and reach out if we find properties that match your criteria.''\<rparr>,
             [saveLeadToSupabase (phone l)
                [Meeting_scheduled True, Wants_meeting (Some False)]]))"
  using assms by (simp add: getNextStep_def length_QUALIFICATION_QUESTIONS)

lemma nextLead_terminal: "meeting_scheduled l \<Longrightarrow> nextLead l m = Inr l"
  by (simp add: nextLead_def getNextStep_terminal persist_Nil)

lemma nextLead_question:
  assumes "\<not> meeting_scheduled l" and "currentIndex l = k" and "k + 1 < 7"
    and "updateLeadField l k r = Inr u"
  shows "nextLead l r = Inr (u\<lparr>current_question_index := Some (k + 1)\<rparr>)"
  by (simp add: nextLead_def getNextStep_question [OF assms] persist_single upsertLead_entries)

lemma nextLead_scheduling:
  assumes "\<not> meeting_scheduled l" and "currentIndex l = 6"
    and "updateLeadField l 6 r = Inr u"
    and "c = u\<lparr>current_question_index := Some 7, qualification_complete := True\<rparr>"
  shows "nextLead l r =
     Inr (c\<lparr>lead_score := Some (calculateLeadScore c),
            phone := Some (normalizePhone (phone l)),
            asked_for_meeting := True\<rparr>)"
  by (simp add: nextLead_def getNextStep_scheduling [OF assms] persist_double
      upsertLead_entries upsertLead_asked)

lemma nextLead_scheduling_response:
  assumes "\<not> meeting_scheduled l" and "7 \<le> currentIndex l" and "asked_for_meeting l"
  shows "nextLead l m =
     Inr (if isPositiveResponse m
          then l\<lparr>phone := Some (normalizePhone (phone l)), meeting_scheduled := True,
                 wants_meeting := Some True, meeting_notes := m\<rparr>
          else l\<lparr>phone := Some (normalizePhone (phone l)), meeting_scheduled := True,
                 wants_meeting := Some False\<rparr>)"
  by (simp add: nextLead_def getNextStep_scheduling_response [OF assms] persist_single
      upsertLead_def saveLeadToSupabase_def)

lemma nextLead_fallback:
  assumes "\<not> meeting_scheduled l" and "7 \<le> currentIndex l" and "\<not> asked_for_meeting l"
  shows "nextLead l m = Inr l"
  using assms
  by (simp add: nextLead_def getNextStep_def length_QUALIFICATION_QUESTIONS persist_Nil)

text \<open>
  One turn from a state whose index is \<open>k\<close>, with the completion flag set exactly at 7
  and no meeting booked below 7: the index moves to \<open>min (k + 1) 7\<close> and the same holds
  of the next state.
\<close>

lemma nextLead_index:
  assumes "current_question_index l = Some k" and "k \<le> 7"
    and "qualification_complete l = (k = 7)"
    and "k < 7 \<Longrightarrow> \<not> meeting_scheduled l"
  shows "\<exists>l'. nextLead l (Some m) = Inr l'
      \<and> current_question_index l' = Some (min (k + 1) 7)
      \<and> qualification_complete l' = (min (k + 1) 7 = 7)
      \<and> (min (k + 1) 7 = 7 \<or> \<not> meeting_scheduled l')"
proof -
  have ci: "currentIndex l = k"
    using assms(1) by (simp add: currentIndex_def)
  consider (terminal) "meeting_scheduled l"
    | (ask) "\<not> meeting_scheduled l" "k + 1 < 7"
    | (final) "\<not> meeting_scheduled l" "k = 6"
    | (offer) "\<not> meeting_scheduled l" "k = 7"
    using assms(2) by linarith
  then show ?thesis
  proof cases
    case terminal
    with assms show ?thesis
      by (auto simp: nextLead_terminal)
  next
    case ask
    from updateLeadField_Some [of k l m] ask obtain v where
      u: "updateLeadField l k (Some m) =
            Inr (setField (field (QUALIFICATION_QUESTIONS ! k)) (Some v) l)"
      by auto
    show ?thesis
      using ask assms by (simp add: nextLead_question [OF ask(1) ci ask(2) u])
  next
    case final
    from updateLeadField_Some [of 6 l m] obtain v where
      u: "updateLeadField l 6 (Some m) =
            Inr (setField (field (QUALIFICATION_QUESTIONS ! 6)) (Some v) l)"
      by auto
    from ci final have ci6: "currentIndex l = 6"
      by simp
    show ?thesis
      using final assms by (simp add: nextLead_scheduling [OF final(1) ci6 u refl])
  next
    case offer
    from ci offer have seven: "7 \<le> currentIndex l"
      by simp
    show ?thesis
    proof (cases "asked_for_meeting l")
      case True
      from nextLead_scheduling_response [OF offer(1) seven True, of "Some m"]
      show ?thesis
        using offer assms by auto
    next
      case False
      from nextLead_fallback [OF offer(1) seven False, of "Some m"]
      show ?thesis
        using offer assms by auto
    qed
  qed
qed

lemma conversation_index:
  assumes "current_question_index l = Some k" and "k \<le> 7"
    and "qualification_complete l = (k = 7)"
    and "k < 7 \<Longrightarrow> \<not> meeting_scheduled l"
  shows "\<exists>l'. conversation l ms = Inr l'
      \<and> current_question_index l' = Some (min (k + length ms) 7)
      \<and> qualification_complete l' = (min (k + length ms) 7 = 7)"
  using assms
proof (induction ms arbitrary: l k)
  case Nil
  then show ?case by simp
next
  case (Cons m ms)
  from nextLead_index [OF Cons.prems, of m] obtain l1 where
    l1: "nextLead l (Some m) = Inr l1"
      "current_question_index l1 = Some (min (k + 1) 7)"
      "qualification_complete l1 = (min (k + 1) 7 = 7)"
      "min (k + 1) 7 = 7 \<or> \<not> meeting_scheduled l1"
    by blast
  have "\<exists>l'. conversation l1 ms = Inr l'
      \<and> current_question_index l' = Some (min (min (k + 1) 7 + length ms) 7)
      \<and> qualification_complete l' = (min (min (k + 1) 7 + length ms) 7 = 7)"
    by (rule Cons.IH) (use l1 in auto)
  moreover have "min (min (k + 1) 7 + length ms) 7 = min (k + length (m # ms)) 7"
    by simp
  ultimately show ?case
    using l1(1) by simp
qed

lemma updateLeadField_Phoenix:
  "updateLeadField l 0 (Some ''Phoenix'') = Inr (l\<lparr>location := Some ''Phoenix''\<rparr>)"
proof -
  have a: "trim ''Phoenix'' = ''Phoenix''"
    by code_simp
  have b: "\<not> includes_str (toLowerCase ''Phoenix'') ''not sure''"
    "\<not> includes_str (toLowerCase ''Phoenix'') ''don't know''"
    "\<not> includes_str (toLowerCase ''Phoenix'') ''unknown''"
    "\<not> includes_str (toLowerCase ''Phoenix'') ''idk''"
    "\<not> includes_str (toLowerCase ''Phoenix'') ''not certain''"
    by code_simp+
  have c: "field (QUALIFICATION_QUESTIONS ! 0) = Location"
    by (simp add: QUALIFICATION_QUESTIONS_def)
  show ?thesis
    by (simp add: updateLeadField_def length_QUALIFICATION_QUESTIONS a b c)
qed

lemma updateLeadField_not_sure:
  assumes "k < 7"
  shows "updateLeadField l k (Some ''not sure'') =
     Inr (setField (field (QUALIFICATION_QUESTIONS ! k)) (Some ''unknown'') l)"
proof -
  have a: "trim ''not sure'' = ''not sure''"
    by code_simp
  have b: "includes_str (toLowerCase ''not sure'') ''not sure''"
    by code_simp
  show ?thesis
    using assms by (simp add: updateLeadField_def length_QUALIFICATION_QUESTIONS a b)
qed

lemma sublist_schedulingOffer: "sublist t (schedulingOffer (Some t))"
  unfolding schedulingOffer_def interpolate_def option.case
  by (subst append_assoc [symmetric]) (rule sublist_appendI)

lemma calculateLeadScore_tiers:
  "calculateLeadScore l = ''hot'' \<or> calculateLeadScore l = ''warm'' \<or> calculateLeadScore l = ''cold''"
  by (simp add: calculateLeadScore_def)

lemma calculateLeadScore_fields:
  assumes "\<And>f. getField a f = getField b f"
  shows "calculateLeadScore a = calculateLeadScore b"
proof -
  have "timeline a = timeline b" "budget a = budget b"
    using assms [of Timeline] assms [of Budget] by simp_all
  then show ?thesis
    by (simp add: calculateLeadScore_def filledCount_def isUrgent_def hasStrongBudget_def assms)
qed

lemma yeah_lets_do_it: "isPositiveResponse (Some ''yeah let's do it'')"
  by code_simp

lemma no_thanks_not_now: "\<not> isPositiveResponse (Some ''no thanks, not now'')"
  by code_simp

lemma not_sure_positive: "isPositiveResponse (Some ''not sure'')"
  by code_simp

lemma dropWhile_infix:
  assumes "w \<noteq> []" and "\<not> P (hd w)"
  shows "dropWhile P (p @ w @ q) = dropWhile P p @ w @ q"
proof (induction p)
  case Nil
  from assms show ?case by (cases w) simp_all
next
  case (Cons a p)
  then show ?case by simp
qed

text \<open>Trimming keeps every occurrence of a word that neither starts nor ends with a space.\<close>

lemma sublist_trim:
  assumes "w \<noteq> []" and "\<not> isWhiteSpace (hd w)" and "\<not> isWhiteSpace (last w)"
    and "sublist w s"
  shows "sublist w (trim s)"
proof -
  from assms(4) obtain p q where s: "s = p @ w @ q"
    by (auto simp: sublist_def)
  have start: "trimStart s = dropWhile isWhiteSpace p @ w @ q"
    using dropWhile_infix [of w isWhiteSpace p q] assms(1,2)
    by (simp add: trimStart_def s)
  have r: "rev w \<noteq> []" "\<not> isWhiteSpace (hd (rev w))"
    using assms(1,3) by (simp_all add: hd_rev)
  have "trim s = dropWhile isWhiteSpace p @ w @ rev (dropWhile isWhiteSpace (rev q))"
    using dropWhile_infix [of "rev w" isWhiteSpace "rev q" "rev (dropWhile isWhiteSpace p)"] r
    by (simp add: trim_def trimEnd_def start)
  then show ?thesis
    by simp
qed

text \<open>A word occurs in the lower-cased text exactly when some stretch of the text lower-cases to it.\<close>

lemma sublist_map_iff: "sublist w (map f s) \<longleftrightarrow> (\<exists>u. sublist u s \<and> map f u = w)"
proof
  assume "sublist w (map f s)"
  then obtain p q where "map f s = p @ w @ q"
    by (auto simp: sublist_def)
  then have "\<exists>us vs. s = us @ vs \<and> p = map f us \<and> w @ q = map f vs"
    by (simp only: map_eq_append_conv)
  then obtain a t where a: "s = a @ t" and t: "w @ q = map f t"
    by blast
  from t [symmetric] have "\<exists>us vs. t = us @ vs \<and> w = map f us \<and> q = map f vs"
    by (simp only: map_eq_append_conv)
  then obtain u b where "t = u @ b" "w = map f u"
    by blast
  with a show "\<exists>u. sublist u s \<and> map f u = w"
    by auto
next
  assume "\<exists>u. sublist u s \<and> map f u = w"
  then obtain u a b where "s = a @ u @ b" "map f u = w"
    by (auto simp: sublist_def)
  then have "map f s = map f a @ w @ map f b"
    by simp
  then show "sublist w (map f s)"
    by (metis sublist_appendI)
qed

lemma includes_toLowerCase:
  "includes_str (toLowerCase s) phrase \<longleftrightarrow> (\<exists>u. sublist u s \<and> toLowerCase u = phrase)"
  unfolding includes_sublist toLowerCase_def by (rule sublist_map_iff)

lemma positiveWords_shape:
  "list_all (\<lambda>w. w \<noteq> [] \<and> \<not> isWhiteSpace (hd w) \<and> \<not> isWhiteSpace (last w)) positiveWords"
  by code_simp

lemma isPositiveResponse_sublist:
  assumes "w \<in> set positiveWords" and "sublist w (toLowerCase m)"
  shows "isPositiveResponse (Some m)"
proof -
  from positiveWords_shape assms(1)
  have w: "w \<noteq> []" "\<not> isWhiteSpace (hd w)" "\<not> isWhiteSpace (last w)"
    by (auto simp: list_all_iff)
  from assms(2) w(1) have m: "m \<noteq> []"
    by (auto simp: toLowerCase_def)
  have "includes_str (trim (toLowerCase m)) w"
    using sublist_trim [of w "toLowerCase m"] w assms(2) by (simp add: includes_sublist)
  with assms(1) m show ?thesis
    by (auto simp: isPositiveResponse_def list_ex_iff)
qed

lemma isFilled_examples:
  "isFilled (Some ''Dallas'')" "\<not> isFilled (Some ''unknown'')" "isFilled (Some ''asap'')"
  "isFilled (Some ''condo'')" "isFilled (Some ''2'')" "isFilled (Some ''cash'')"
  "isFilled (Some ''job'')"
  by code_simp+

lemma filledCount_scenarioE: "filledCount (scenarioE l) = 6"
  by (simp add: scenarioE_def filledCount_def scoreFields_def isFilled_examples)

lemma isUrgent_scenarioE: "isUrgent (scenarioE l)"
proof -
  have "includes_str (toLowerCase ''asap'') ''asap''"
    by code_simp
  then show ?thesis
    by (simp add: scenarioE_def isUrgent_def)
qed

lemma hasStrongBudget_scenarioE: "\<not> hasStrongBudget (scenarioE l)"
proof -
  have "includes_str ''unknown'' ''unknown''"
    by code_simp
  then show ?thesis
    by (simp add: scenarioE_def hasStrongBudget_def)
qed

text \<open>Where the earlier copy of the classifier and the current one part.\<close>

lemma updateLeadField_earlier_differs:
  "updateLeadField_earlier scenarioA 0 (Some ''not certain '') =
     Inr (scenarioA\<lparr>location := Some ''not certain ''\<rparr>)
   \<and> updateLeadField scenarioA 0 (Some ''not certain '') =
     Inr (scenarioA\<lparr>location := Some ''unknown''\<rparr>)
   \<and> updateLeadField_earlier scenarioA 0 (Some '' Phoenix'') =
     Inr (scenarioA\<lparr>location := Some '' Phoenix''\<rparr>)
   \<and> updateLeadField scenarioA 0 (Some '' Phoenix'') =
     Inr (scenarioA\<lparr>location := Some ''Phoenix''\<rparr>)"
  by code_simp

section \<open>The terminal state\<close>

text \<open>
  C1. For every lead with \<open>meeting_scheduled\<close> set and every inbound message (also
  \<open>null\<close>), \<open>getNextStep\<close> returns the fixed acknowledgement of type
  \<open>already_handled\<close> and posts nothing to the store, so the lead stays as it was.
\<close>

theorem getNextStep_meeting_scheduled:
  assumes "meeting_scheduled l"
  shows "getNextStep l m =
           Inr (\<lparr>type = Already_handled,
                 message = ''Thanks for your message! Our team will be in touch shortly to confirm the meeting details.''\<rparr>,
                [])
       \<and> persist [] l = l
       \<and> nextLead l m = Inr l"
  using assms by (simp add: getNextStep_terminal nextLead_terminal persist_Nil)

theorem getNextStep_meeting_scheduled_witness:
  "meeting_scheduled scenarioBooked
   \<and> getNextStep scenarioBooked (Some ''hello'') =
           Inr (\<lparr>type = Already_handled,
                 message = ''Thanks for your message! Our team will be in touch shortly to confirm the meeting details.''\<rparr>,
                [])
   \<and> persist [] scenarioBooked = scenarioBooked
   \<and> nextLead scenarioBooked (Some ''hello'') = Inr scenarioBooked"
proof -
  have h: "meeting_scheduled scenarioBooked"
    by (simp add: scenarioBooked_def)
  from getNextStep_meeting_scheduled [OF h, of "Some ''hello''"] h show ?thesis
    by simp
qed

section \<open>The question index along a conversation\<close>

text \<open>
  C3. From the default state of a new lead, after the messages \<open>ms\<close> have been answered
  one after the other, the conversation has returned a lead (no turn fails) whose
  \<open>current_question_index\<close> is the smaller of the number of messages and the script
  length, which is 7, and whose \<open>qualification_complete\<close> is true exactly when the index
  is the script length.
\<close>

theorem conversation_question_index:
  "\<exists>l. conversation (defaultLeadState p) ms = Inr l
      \<and> current_question_index l = Some (min (length ms) (length QUALIFICATION_QUESTIONS))
      \<and> min (length ms) (length QUALIFICATION_QUESTIONS) \<le> length QUALIFICATION_QUESTIONS
      \<and> qualification_complete l = (current_question_index l = Some (length QUALIFICATION_QUESTIONS))
      \<and> length QUALIFICATION_QUESTIONS = 7"
  using conversation_index [of "defaultLeadState p" 0 ms]
  by (auto simp: defaultLeadState_def length_QUALIFICATION_QUESTIONS)

section \<open>The first answer of a fresh lead\<close>

text \<open>
  C8. For a lead at question index 0 with all flags false, whatever its \<open>location\<close> was
  before, the message \<open>Phoenix\<close> is written to \<open>location\<close>, the index goes from 0 to 1,
  nothing else changes, and the reply is the prompt of script entry 1, the one of
  \<open>home_type\<close>.
\<close>

theorem getNextStep_fresh_Phoenix:
  assumes "current_question_index l = Some 0"
    and "\<not> qualification_complete l" and "\<not> asked_for_meeting l" and "\<not> meeting_scheduled l"
  shows "getNextStep l (Some ''Phoenix'') =
           Inr (\<lparr>type = Question, message = question (QUALIFICATION_QUESTIONS ! 1)\<rparr>,
                [saveLeadToSupabase (phone l)
                   (entries (l\<lparr>location := Some ''Phoenix'', current_question_index := Some 1\<rparr>))])
       \<and> field (QUALIFICATION_QUESTIONS ! 0) = Location
       \<and> field (QUALIFICATION_QUESTIONS ! 1) = Home_type
       \<and> question (QUALIFICATION_QUESTIONS ! 1) =
           ''What type of home are you looking for? (house, condo, apartment, etc.)''
       \<and> nextLead l (Some ''Phoenix'') =
           Inr (l\<lparr>location := Some ''Phoenix'', current_question_index := Some 1\<rparr>)"
proof -
  have ci: "currentIndex l = 0"
    using assms(1) by (simp add: currentIndex_def)
  have lt: "(0::nat) + 1 < 7"
    by simp
  note q = getNextStep_question [OF assms(4) ci lt updateLeadField_Phoenix]
  note n = nextLead_question [OF assms(4) ci lt updateLeadField_Phoenix]
  show ?thesis
    using q n by (simp add: QUALIFICATION_QUESTIONS_def)
qed

theorem getNextStep_fresh_Phoenix_witness:
  "current_question_index scenarioA = Some 0
   \<and> \<not> qualification_complete scenarioA
   \<and> \<not> asked_for_meeting scenarioA
   \<and> \<not> meeting_scheduled scenarioA
   \<and> nextLead scenarioA (Some ''Phoenix'') =
       Inr (scenarioA\<lparr>location := Some ''Phoenix'', current_question_index := Some 1\<rparr>)
   \<and> question (QUALIFICATION_QUESTIONS ! 1) =
       ''What type of home are you looking for? (house, condo, apartment, etc.)''"
proof -
  have h: "current_question_index scenarioA = Some 0"
    "\<not> qualification_complete scenarioA"
    "\<not> asked_for_meeting scenarioA"
    "\<not> meeting_scheduled scenarioA"
    by (simp_all add: scenarioA_def defaultLeadState_def)
  from getNextStep_fresh_Phoenix [OF h] h show ?thesis
    by simp
qed

section \<open>The last answer of the interview\<close>

text \<open>
  C4. For a lead at question index 6 (the last entry of the script, \<open>motivation\<close>)
  without a booked meeting, the message \<open>not sure\<close> is answered by a scheduling step,
  and the lead after the posts of that step has \<open>motivation\<close> \<open>unknown\<close>, index 7,
  \<open>qualification_complete\<close> and \<open>asked_for_meeting\<close> set and \<open>lead_score\<close> the scorer's
  tier of the lead with that answer; the tier is \<open>hot\<close>, \<open>warm\<close> or \<open>cold\<close> and occurs
  in the reply.
\<close>

theorem getNextStep_last_answer_not_sure:
  assumes "current_question_index l = Some 6" and "\<not> meeting_scheduled l"
  shows "\<exists>s posts l'.
           getNextStep l (Some ''not sure'') = Inr (s, posts)
         \<and> l' = persist posts l
         \<and> nextLead l (Some ''not sure'') = Inr l'
         \<and> field (QUALIFICATION_QUESTIONS ! 6) = Motivation
         \<and> motivation l' = Some ''unknown''
         \<and> current_question_index l' = Some 7
         \<and> qualification_complete l'
         \<and> lead_score l' = Some (calculateLeadScore l')
         \<and> lead_score l' = Some (calculateLeadScore (l\<lparr>motivation := Some ''unknown''\<rparr>))
         \<and> asked_for_meeting l'
         \<and> type s = Scheduling
         \<and> (calculateLeadScore l' = ''hot'' \<or> calculateLeadScore l' = ''warm''
              \<or> calculateLeadScore l' = ''cold'')
         \<and> includes_str (message s) (calculateLeadScore l')"
proof -
  have ci: "currentIndex l = 6"
    using assms(1) by (simp add: currentIndex_def)
  have f: "field (QUALIFICATION_QUESTIONS ! 6) = Motivation"
    by (simp add: QUALIFICATION_QUESTIONS_def)
  have u: "updateLeadField l 6 (Some ''not sure'') = Inr (l\<lparr>motivation := Some ''unknown''\<rparr>)"
    using updateLeadField_not_sure [of 6 l] by (simp add: f)
  define c where
    "c = l\<lparr>motivation := Some ''unknown'', current_question_index := Some 7,
           qualification_complete := True\<rparr>"
  define l' where
    "l' = c\<lparr>lead_score := Some (calculateLeadScore c),
             phone := Some (normalizePhone (phone l)), asked_for_meeting := True\<rparr>"
  have c: "c = (l\<lparr>motivation := Some ''unknown''\<rparr>)
                 \<lparr>current_question_index := Some 7, qualification_complete := True\<rparr>"
    by (simp add: c_def)
  note g = getNextStep_scheduling [OF assms(2) ci u c]
  have n: "nextLead l (Some ''not sure'') = Inr l'"
    using nextLead_scheduling [OF assms(2) ci u c] by (simp add: l'_def)
  have p: "l' = persist [saveLeadToSupabase (phone l) (entries (c\<lparr>lead_score := Some (calculateLeadScore c)\<rparr>)),
                         saveLeadToSupabase (phone l) [Asked_for_meeting True]] l"
    by (simp add: l'_def persist_double upsertLead_entries upsertLead_asked)
  have s1: "calculateLeadScore l' = calculateLeadScore c"
    by (rule calculateLeadScore_fields) (case_tac f; simp add: l'_def)
  have s2: "calculateLeadScore c = calculateLeadScore (l\<lparr>motivation := Some ''unknown''\<rparr>)"
    by (rule calculateLeadScore_fields) (case_tac f; simp add: c_def)
  have inc: "includes_str (schedulingOffer (Some (calculateLeadScore c))) (calculateLeadScore l')"
    by (simp add: includes_sublist s1 sublist_schedulingOffer)
  have fields: "motivation l' = Some ''unknown''" "current_question_index l' = Some 7"
    "qualification_complete l'" "asked_for_meeting l'"
    "lead_score l' = Some (calculateLeadScore c)"
    by (simp_all add: l'_def c_def)
  show ?thesis
    using g n p f fields s1 s2 inc calculateLeadScore_tiers [of l']
    by (intro exI [of _ "\<lparr>type = Scheduling, message = schedulingOffer (Some (calculateLeadScore c))\<rparr>"]
        exI [of _ "[saveLeadToSupabase (phone l) (entries (c\<lparr>lead_score := Some (calculateLeadScore c)\<rparr>)),
                    saveLeadToSupabase (phone l) [Asked_for_meeting True]]"]
        exI [of _ l']) simp
qed

theorem getNextStep_last_answer_not_sure_witness:
  "current_question_index scenarioB = Some 6
   \<and> \<not> meeting_scheduled scenarioB
   \<and> (\<exists>s posts l'.
           getNextStep scenarioB (Some ''not sure'') = Inr (s, posts)
         \<and> nextLead scenarioB (Some ''not sure'') = Inr l'
         \<and> motivation l' = Some ''unknown''
         \<and> current_question_index l' = Some 7
         \<and> qualification_complete l'
         \<and> lead_score l' = Some (calculateLeadScore l')
         \<and> asked_for_meeting l'
         \<and> type s = Scheduling
         \<and> includes_str (message s) (calculateLeadScore l'))"
proof -
  have h: "current_question_index scenarioB = Some 6" "\<not> meeting_scheduled scenarioB"
    by (simp_all add: scenarioB_def scenarioA_def defaultLeadState_def)
  from getNextStep_last_answer_not_sure [OF h] obtain s posts l' where
    "getNextStep scenarioB (Some ''not sure'') = Inr (s, posts)"
    "nextLead scenarioB (Some ''not sure'') = Inr l'"
    "motivation l' = Some ''unknown''"
    "current_question_index l' = Some 7"
    "qualification_complete l'"
    "lead_score l' = Some (calculateLeadScore l')"
    "asked_for_meeting l'"
    "type s = Scheduling"
    "includes_str (message s) (calculateLeadScore l')"
    by blast
  with h show ?thesis
    by blast
qed

section \<open>The answer to the scheduling offer\<close>

text \<open>
  C5. For a lead that has been asked for a meeting, has none booked and whose question
  index is at or past the script length: a message that \<open>isPositiveResponse\<close> classifies
  as affirmative is answered by the confirmation, and the one post sets
  \<open>meeting_scheduled\<close>, sets \<open>wants_meeting\<close> to true and stores the raw message as
  \<open>meeting_notes\<close>; any other message (also \<open>null\<close>) is answered by the decline
  acknowledgement, and the one post sets \<open>meeting_scheduled\<close> and sets \<open>wants_meeting\<close>
  to false, with no \<open>meeting_notes\<close> in it. The message \<open>yeah let's do it\<close> is
  affirmative and becomes the \<open>meeting_notes\<close>.
\<close>

theorem getNextStep_scheduling_answer:
  assumes "asked_for_meeting l" and "\<not> meeting_scheduled l"
    and "current_question_index l = Some i" and "length QUALIFICATION_QUESTIONS \<le> i"
  shows "(isPositiveResponse m \<longrightarrow>
            getNextStep l m =
              Inr (\<lparr>type = Meeting_confirmed,
                    message = [CHR 0xF0, CHR 0x9F, CHR 0x8E, CHR 0x89]
                      @ '' Great! An agent will reach out to you within the next hour to schedule the meeting. Thank you!''\<rparr>,
                   [[Phone (Some (normalizePhone (phone l))),
                     Meeting_scheduled True, Wants_meeting (Some True), Meeting_notes m]])
          \<and> nextLead l m =
              Inr (l\<lparr>phone := Some (normalizePhone (phone l)), meeting_scheduled := True,
                     wants_meeting := Some True, meeting_notes := m\<rparr>))
       \<and> (\<not> isPositiveResponse m \<longrightarrow>
            getNextStep l m =
              Inr (\<lparr>type = Meeting_declined,
                    message = ''Thank you for your interest! We will keep your information on file and reach out if we find properties that match your criteria.''\<rparr>,
                   [[Phone (Some (normalizePhone (phone l))),
                     Meeting_scheduled True, Wants_meeting (Some False)]])
          \<and> nextLead l m =
              Inr (l\<lparr>phone := Some (normalizePhone (phone l)), meeting_scheduled := True,
                     wants_meeting := Some False\<rparr>))
       \<and> isPositiveResponse (Some ''yeah let's do it'')
       \<and> nextLead l (Some ''yeah let's do it'') =
              Inr (l\<lparr>phone := Some (normalizePhone (phone l)), meeting_scheduled := True,
                     wants_meeting := Some True, meeting_notes := Some ''yeah let's do it''\<rparr>)"
proof -
  have seven: "7 \<le> currentIndex l"
    using assms(3,4) by (simp add: currentIndex_def length_QUALIFICATION_QUESTIONS)
  note g = getNextStep_scheduling_response [OF assms(2) seven assms(1)]
  note n = nextLead_scheduling_response [OF assms(2) seven assms(1)]
  show ?thesis
    using g [of m] n [of m] n [of "Some ''yeah let's do it''"] yeah_lets_do_it
    by (simp add: saveLeadToSupabase_def)
qed

theorem getNextStep_scheduling_answer_witness:
  "asked_for_meeting scenarioC
   \<and> \<not> meeting_scheduled scenarioC
   \<and> current_question_index scenarioC = Some 7
   \<and> length QUALIFICATION_QUESTIONS \<le> 7
   \<and> isPositiveResponse (Some ''yeah let's do it'')
   \<and> nextLead scenarioC (Some ''yeah let's do it'') =
       Inr (scenarioC\<lparr>phone := Some (normalizePhone (phone scenarioC)), meeting_scheduled := True,
              wants_meeting := Some True, meeting_notes := Some ''yeah let's do it''\<rparr>)
   \<and> \<not> isPositiveResponse (Some ''no thanks, not now'')
   \<and> nextLead scenarioC (Some ''no thanks, not now'') =
       Inr (scenarioC\<lparr>phone := Some (normalizePhone (phone scenarioC)), meeting_scheduled := True,
              wants_meeting := Some False\<rparr>)"
proof -
  have h: "asked_for_meeting scenarioC" "\<not> meeting_scheduled scenarioC"
    "current_question_index scenarioC = Some 7" "length QUALIFICATION_QUESTIONS \<le> 7"
    by (simp_all add: scenarioC_def scenarioA_def defaultLeadState_def
        length_QUALIFICATION_QUESTIONS)
  from getNextStep_scheduling_answer [OF h, of "Some ''yeah let's do it''"]
    getNextStep_scheduling_answer [OF h, of "Some ''no thanks, not now''"]
    h yeah_lets_do_it no_thanks_not_now
  show ?thesis
    by simp
qed

section \<open>The scorer's decision table\<close>

text \<open>
  C2. \<open>calculateLeadScore\<close> is the decision table read top-down: \<open>hot\<close> exactly when
  at least five fields are filled, the timeline is urgent and the budget is strong;
  otherwise \<open>warm\<close> exactly when at least four fields are filled; otherwise \<open>cold\<close>.
  A lead with the answers Dallas, unknown (budget), asap, condo, 2, cash, job has six
  filled fields, is urgent, has no strong budget and scores \<open>warm\<close>. A lead with at
  least five filled fields that is not urgent scores \<open>warm\<close>.
\<close>

theorem calculateLeadScore_decision_table:
  "(calculateLeadScore l = ''hot'' \<longleftrightarrow>
      5 \<le> filledCount l \<and> isUrgent l \<and> hasStrongBudget l)
   \<and> (calculateLeadScore l = ''warm'' \<longleftrightarrow>
      \<not> (5 \<le> filledCount l \<and> isUrgent l \<and> hasStrongBudget l) \<and> 4 \<le> filledCount l)
   \<and> (calculateLeadScore l = ''cold'' \<longleftrightarrow>
      \<not> (5 \<le> filledCount l \<and> isUrgent l \<and> hasStrongBudget l) \<and> \<not> 4 \<le> filledCount l)
   \<and> filledCount (scenarioE l) = 6
   \<and> isUrgent (scenarioE l)
   \<and> \<not> hasStrongBudget (scenarioE l)
   \<and> calculateLeadScore (scenarioE l) = ''warm''
   \<and> (5 \<le> filledCount l \<and> \<not> isUrgent l \<longrightarrow> calculateLeadScore l = ''warm'')"
proof -
  have table: "(calculateLeadScore x = ''hot'' \<longleftrightarrow>
      5 \<le> filledCount x \<and> isUrgent x \<and> hasStrongBudget x)
   \<and> (calculateLeadScore x = ''warm'' \<longleftrightarrow>
      \<not> (5 \<le> filledCount x \<and> isUrgent x \<and> hasStrongBudget x) \<and> 4 \<le> filledCount x)
   \<and> (calculateLeadScore x = ''cold'' \<longleftrightarrow>
      \<not> (5 \<le> filledCount x \<and> isUrgent x \<and> hasStrongBudget x) \<and> \<not> 4 \<le> filledCount x)" for x
    by (auto simp add: calculateLeadScore_def)
  have e: "calculateLeadScore (scenarioE l) = ''warm''"
    by (simp add: calculateLeadScore_def filledCount_scenarioE hasStrongBudget_scenarioE)
  have fall: "5 \<le> filledCount l \<and> \<not> isUrgent l \<longrightarrow> calculateLeadScore l = ''warm''"
    by (simp add: calculateLeadScore_def)
  show ?thesis
    using table [of l] e fall filledCount_scenarioE [of l] isUrgent_scenarioE [of l]
      hasStrongBudget_scenarioE [of l]
    by blast
qed

theorem calculateLeadScore_decision_table_witness:
  "5 \<le> filledCount scenarioPatient
   \<and> \<not> isUrgent scenarioPatient
   \<and> calculateLeadScore scenarioPatient = ''warm''"
proof -
  have h: "5 \<le> filledCount scenarioPatient" "\<not> isUrgent scenarioPatient"
    by code_simp+
  from calculateLeadScore_decision_table [of scenarioPatient] h show ?thesis
    by blast
qed

section \<open>The scheduling-intent classifier\<close>

text \<open>
  C6. \<open>isPositiveResponse\<close> is false for \<open>null\<close> and for the empty text, and false for
  \<open>no thanks, not now\<close>: no word of the affirmative lexicon occurs in that text.
\<close>

theorem isPositiveResponse_no_thanks:
  "isPositiveResponse None = False
   \<and> isPositiveResponse (Some []) = False
   \<and> isPositiveResponse (Some ''no thanks, not now'') = False
   \<and> \<not> list_ex (\<lambda>word. sublist word ''no thanks, not now'') positiveWords
   \<and> \<not> list_ex (\<lambda>word. sublist word (trim (toLowerCase ''no thanks, not now''))) positiveWords"
proof -
  have a: "\<not> list_ex (\<lambda>word. includes_str ''no thanks, not now'' word) positiveWords"
    by code_simp
  have b: "\<not> list_ex (\<lambda>word. includes_str (trim (toLowerCase ''no thanks, not now'')) word)
              positiveWords"
    by code_simp
  show ?thesis
    using a b no_thanks_not_now by (simp add: isPositiveResponse_def includes_sublist)
qed

text \<open>
  C10. A message whose lower-cased text contains a word of the affirmative lexicon is
  classified affirmative, whatever stands around the word. So \<open>not sure\<close> is affirmative
  (through \<open>sure\<close>): sent in answer to the scheduling offer it books the meeting, with
  \<open>wants_meeting\<close> true and \<open>not sure\<close> as the \<open>meeting_notes\<close>, while the same text
  sent in answer to a qualification question is stored as \<open>unknown\<close>.
\<close>

theorem isPositiveResponse_substring:
  "(w \<in> set positiveWords \<and> sublist w (toLowerCase m) \<longrightarrow> isPositiveResponse (Some m))
   \<and> ''sure'' \<in> set positiveWords
   \<and> sublist ''sure'' (toLowerCase ''not sure'')
   \<and> isPositiveResponse (Some ''not sure'')
   \<and> (asked_for_meeting l \<and> \<not> meeting_scheduled l
        \<and> current_question_index l = Some i \<and> length QUALIFICATION_QUESTIONS \<le> i \<longrightarrow>
      getNextStep l (Some ''not sure'') =
        Inr (\<lparr>type = Meeting_confirmed,
              message = [CHR 0xF0, CHR 0x9F, CHR 0x8E, CHR 0x89]
                @ '' Great! An agent will reach out to you within the next hour to schedule the meeting. Thank you!''\<rparr>,
             [[Phone (Some (normalizePhone (phone l))),
               Meeting_scheduled True, Wants_meeting (Some True),
               Meeting_notes (Some ''not sure'')]])
      \<and> nextLead l (Some ''not sure'') =
        Inr (l\<lparr>phone := Some (normalizePhone (phone l)), meeting_scheduled := True,
               wants_meeting := Some True, meeting_notes := Some ''not sure''\<rparr>))
   \<and> (k < length QUALIFICATION_QUESTIONS \<longrightarrow>
      updateLeadField l k (Some ''not sure'') =
        Inr (setField (field (QUALIFICATION_QUESTIONS ! k)) (Some ''unknown'') l))"
proof -
  have word: "''sure'' \<in> set positiveWords"
    by (simp add: positiveWords_def)
  have occ: "sublist ''sure'' (toLowerCase ''not sure'')"
  proof -
    have "includes_str (toLowerCase ''not sure'') ''sure''"
      by code_simp
    then show ?thesis
      by (simp only: includes_sublist)
  qed
  have sched: "getNextStep l (Some ''not sure'') =
        Inr (\<lparr>type = Meeting_confirmed,
              message = [CHR 0xF0, CHR 0x9F, CHR 0x8E, CHR 0x89]
                @ '' Great! An agent will reach out to you within the next hour to schedule the meeting. Thank you!''\<rparr>,
             [[Phone (Some (normalizePhone (phone l))),
               Meeting_scheduled True, Wants_meeting (Some True),
               Meeting_notes (Some ''not sure'')]])
      \<and> nextLead l (Some ''not sure'') =
        Inr (l\<lparr>phone := Some (normalizePhone (phone l)), meeting_scheduled := True,
               wants_meeting := Some True, meeting_notes := Some ''not sure''\<rparr>)"
    if h: "asked_for_meeting l" "\<not> meeting_scheduled l" "current_question_index l = Some i"
      "length QUALIFICATION_QUESTIONS \<le> i"
  proof -
    have seven: "7 \<le> currentIndex l"
      using h(3,4) by (simp add: currentIndex_def length_QUALIFICATION_QUESTIONS)
    show ?thesis
      using getNextStep_scheduling_response [OF h(2) seven h(1), of "Some ''not sure''"]
        nextLead_scheduling_response [OF h(2) seven h(1), of "Some ''not sure''"]
        not_sure_positive
      by (simp add: saveLeadToSupabase_def)
  qed
  have field: "updateLeadField l k (Some ''not sure'') =
        Inr (setField (field (QUALIFICATION_QUESTIONS ! k)) (Some ''unknown'') l)"
    if "k < length QUALIFICATION_QUESTIONS"
    using that updateLeadField_not_sure [of k l]
    by (simp add: length_QUALIFICATION_QUESTIONS)
  show ?thesis
    using isPositiveResponse_sublist [of w m] word occ not_sure_positive sched field
    by blast
qed

theorem isPositiveResponse_substring_witness:
  "''sure'' \<in> set positiveWords
   \<and> sublist ''sure'' (toLowerCase ''Not sure, sorry'')
   \<and> isPositiveResponse (Some ''Not sure, sorry'')
   \<and> asked_for_meeting scenarioC
   \<and> \<not> meeting_scheduled scenarioC
   \<and> current_question_index scenarioC = Some 7
   \<and> length QUALIFICATION_QUESTIONS \<le> 7
   \<and> nextLead scenarioC (Some ''not sure'') =
        Inr (scenarioC\<lparr>phone := Some (normalizePhone (phone scenarioC)), meeting_scheduled := True,
               wants_meeting := Some True, meeting_notes := Some ''not sure''\<rparr>)
   \<and> 6 < length QUALIFICATION_QUESTIONS
   \<and> updateLeadField scenarioB 6 (Some ''not sure'') =
        Inr (setField (field (QUALIFICATION_QUESTIONS ! 6)) (Some ''unknown'') scenarioB)"
proof -
  have w: "''sure'' \<in> set positiveWords"
    by (simp add: positiveWords_def)
  have occ: "sublist ''sure'' (toLowerCase ''Not sure, sorry'')"
  proof -
    have "includes_str (toLowerCase ''Not sure, sorry'') ''sure''"
      by code_simp
    then show ?thesis
      by (simp only: includes_sublist)
  qed
  have h: "asked_for_meeting scenarioC" "\<not> meeting_scheduled scenarioC"
    "current_question_index scenarioC = Some 7" "length QUALIFICATION_QUESTIONS \<le> 7"
    "6 < length QUALIFICATION_QUESTIONS"
    by (simp_all add: scenarioC_def scenarioA_def defaultLeadState_def
        length_QUALIFICATION_QUESTIONS)
  from isPositiveResponse_substring [of "''sure''" "''Not sure, sorry''" scenarioC 7 6]
    isPositiveResponse_substring [of "''sure''" "''Not sure, sorry''" scenarioB 7 6]
    w occ h
  show ?thesis
    by blast
qed

section \<open>The answer classifier\<close>

text \<open>
  C7. For every lead, every question index below the script length and every inbound
  text, \<open>updateLeadField\<close> writes into the field of the script entry at that index:
  the sentinel \<open>unknown\<close> exactly when some stretch of the trimmed text lower-cases to
  one of the phrases \<open>not sure\<close>, \<open>don't know\<close>, \<open>unknown\<close>, \<open>idk\<close>, \<open>not certain\<close>,
  and the trimmed text itself otherwise.
\<close>

theorem updateLeadField_unknown_lexicon:
  assumes "i < length QUALIFICATION_QUESTIONS"
  shows "updateLeadField l i (Some r) =
           Inr (setField (field (QUALIFICATION_QUESTIONS ! i))
                  (Some (if \<exists>phrase \<in> set [''not sure'', ''don't know'', ''unknown'', ''idk'', ''not certain''].
                              \<exists>u. sublist u (trim r) \<and> toLowerCase u = phrase
                         then ''unknown'' else trim r)) l)
       \<and> getField (setField f v l) f = v"
proof -
  have cond: "(\<exists>phrase \<in> set [''not sure'', ''don't know'', ''unknown'', ''idk'', ''not certain''].
                 \<exists>u. sublist u (trim r) \<and> toLowerCase u = phrase)
      \<longleftrightarrow> includes_str (toLowerCase (trim r)) ''not sure'' \<or>
          includes_str (toLowerCase (trim r)) ''don't know'' \<or>
          includes_str (toLowerCase (trim r)) ''unknown'' \<or>
          includes_str (toLowerCase (trim r)) ''idk'' \<or>
          includes_str (toLowerCase (trim r)) ''not certain''"
    by (simp add: includes_toLowerCase)
  have main: "updateLeadField l i (Some r) =
      Inr (setField (field (QUALIFICATION_QUESTIONS ! i))
             (Some (if includes_str (toLowerCase (trim r)) ''not sure'' \<or>
                       includes_str (toLowerCase (trim r)) ''don't know'' \<or>
                       includes_str (toLowerCase (trim r)) ''unknown'' \<or>
                       includes_str (toLowerCase (trim r)) ''idk'' \<or>
                       includes_str (toLowerCase (trim r)) ''not certain''
                    then ''unknown'' else trim r)) l)"
    using assms by (simp add: updateLeadField_def Let_def)
  have get: "getField (setField f v l) f = v"
    by (cases f) simp_all
  from main get show ?thesis
    by (simp only: cond simp_thms)
qed

theorem updateLeadField_unknown_lexicon_witness:
  "0 < length QUALIFICATION_QUESTIONS
   \<and> updateLeadField scenarioA 0 (Some ''  I'm Not Sure yet '') =
       Inr (scenarioA\<lparr>location := Some ''unknown''\<rparr>)
   \<and> updateLeadField scenarioA 0 (Some '' Phoenix  '') =
       Inr (scenarioA\<lparr>location := Some ''Phoenix''\<rparr>)"
proof -
  have h: "0 < length QUALIFICATION_QUESTIONS"
    by (simp add: length_QUALIFICATION_QUESTIONS)
  have f: "field (QUALIFICATION_QUESTIONS ! 0) = Location"
    by (simp add: QUALIFICATION_QUESTIONS_def)
  have yes: "\<exists>phrase \<in> set [''not sure'', ''don't know'', ''unknown'', ''idk'', ''not certain''].
      \<exists>u. sublist u (trim ''  I'm Not Sure yet '') \<and> toLowerCase u = phrase"
  proof -
    have "includes_str (toLowerCase (trim ''  I'm Not Sure yet '')) ''not sure''"
      by code_simp
    then show ?thesis
      by (simp add: includes_toLowerCase [symmetric])
  qed
  have no: "\<not> (\<exists>phrase \<in> set [''not sure'', ''don't know'', ''unknown'', ''idk'', ''not certain''].
      \<exists>u. sublist u (trim '' Phoenix  '') \<and> toLowerCase u = phrase)"
  proof -
    have "\<not> includes_str (toLowerCase (trim '' Phoenix  '')) ''not sure''"
      "\<not> includes_str (toLowerCase (trim '' Phoenix  '')) ''don't know''"
      "\<not> includes_str (toLowerCase (trim '' Phoenix  '')) ''unknown''"
      "\<not> includes_str (toLowerCase (trim '' Phoenix  '')) ''idk''"
      "\<not> includes_str (toLowerCase (trim '' Phoenix  '')) ''not certain''"
      by code_simp+
    then show ?thesis
      by (simp add: includes_toLowerCase [symmetric])
  qed
  have t: "trim '' Phoenix  '' = ''Phoenix''"
    by code_simp
  from updateLeadField_unknown_lexicon [OF h, of scenarioA "''  I'm Not Sure yet ''"]
    updateLeadField_unknown_lexicon [OF h, of scenarioA "'' Phoenix  ''"]
  show ?thesis
    using h by (simp only: yes no no [unfolded t] if_True if_False f t setField.simps simp_thms)
qed

end
